theory Spec2Isabelle
  imports Complex_Main
begin

section \<open>Bond pricer engine (engine/bond_engine.py)\<close>

text \<open>
  Python floats are modelled as exact reals (rounding, overflow and the IEEE special
  values of inputs are outside the model); Python ints as \<open>int\<close>. The tolerances
  \<open>1e-12\<close> and \<open>1e-10\<close> of the source are the reals \<open>1 / 10 ^ 12\<close> and
  \<open>1 / 10 ^ 10\<close>. Every \<open>raise\<close> of the source, every list index that can be out
  of range and every Python float division by zero is a branch returning \<open>Inl\<close>.
\<close>

subsection \<open>Errors\<close>

datatype value_error =
    LengthMismatch          \<comment> \<open>pillars and rates must have the same length\<close>
  | NeedPillar              \<comment> \<open>Need at least one pillar\<close>
  | PillarNotPositive       \<comment> \<open>All pillars must be > 0 (years)\<close>
  | PillarsNotIncreasing    \<comment> \<open>pillars must be strictly increasing\<close>
  | MNotPositive            \<comment> \<open>m must be positive\<close>
  | InvalidRate             \<comment> \<open>Invalid rate/compounding: 1 + r/m <= 0\<close>
  | FvMaturityNotPositive   \<comment> \<open>fv and maturity must be positive\<close>
  | FreqNotPositive         \<comment> \<open>coupon_freq p must be positive integer\<close>
  | CouponNegative          \<comment> \<open>coupon_rate cannot be negative\<close>
  | NonIncreasingGrid       \<comment> \<open>Non-increasing time grid generated\<close>

datatype error = ValueError value_error | IndexError | ZeroDivisionError


definition py_last :: "'a list \<Rightarrow> error + 'a" where
  "py_last xs = (if xs = [] then Inl IndexError else Inr (last xs))"


text \<open>Python float division \<open>a / b\<close>: raises ZeroDivisionError when \<open>b\<close> is zero.\<close>

definition py_div :: "real \<Rightarrow> real \<Rightarrow> error + real" where
  "py_div a b = (if b = 0 then Inl ZeroDivisionError else Inr (a / b))"

subsection \<open>Data model\<close>

text \<open>The frozen dataclasses. The one-letter fields \<open>j\<close> and \<open>m\<close> of \<open>FlatYield\<close> are
  \<open>fy_j\<close> and \<open>fy_m\<close>, the field \<open>m\<close> of \<open>YieldCurve\<close> is \<open>yc_m\<close>; the columns
  \<open>k\<close>, \<open>t\<close>, \<open>df\<close>, \<open>pv\<close> of the cash-flow table are \<open>row_k\<close>, \<open>row_t\<close>,
  \<open>row_df\<close>, \<open>row_pv\<close>.\<close>

record BondSpec =
  fv :: real
  coupon_rate :: real
  maturity :: real
  coupon_freq :: int

record FlatYield =
  fy_j :: real
  fy_m :: int


subsection \<open>YieldCurve\<close>









subsection \<open>Cash-flow schedule\<close>

record CashflowRow =
  row_k :: int
  row_t :: real
  accrual :: real
  cashflow :: real
  coupon :: real

text \<open>The time grid of \<open>cashflows\<close> (source lines 118 to 140). \<open>k / p\<close> divides two
  ints to a float; \<open>p > 0\<close> has been checked before. With \<open>stub = False\<close> the source
  reads \<open>times[-1]\<close> without a guard.\<close>

definition full_times :: "int \<Rightarrow> int \<Rightarrow> real list" where
  "full_times n_full p = map (\<lambda>k. of_int k / of_int p) [1 .. n_full]"

definition schedule_times :: "real \<Rightarrow> int \<Rightarrow> bool \<Rightarrow> error + real list" where
  "schedule_times T p stub =
     (let n_exact = T * of_int p;
          n_full = \<lfloor>n_exact + 1 / 10 ^ 12\<rfloor>;
          tms = full_times n_full p
      in if stub then
           (if \<bar>n_exact - of_int n_full\<bar> > 1 / 10 ^ 10 then
              (if tms \<noteq> [] \<and> \<bar>last tms - T\<bar> < 1 / 10 ^ 12 then Inr tms
               else Inr (tms @ [T]))
            else
              (if tms = [] \<or> \<bar>last tms - T\<bar> > 1 / 10 ^ 12 then Inr (tms @ [T])
               else Inr tms))
         else
           (let T_used = of_int n_full / of_int p;
                tms = full_times n_full p
            in (case py_last tms of Inl e \<Rightarrow> Inl e | Inr t_last \<Rightarrow>
                 if \<bar>t_last - T_used\<bar> > 1 / 10 ^ 12 then Inr (tms @ [T_used]) else Inr tms)))"

text \<open>The row loop \<open>for i, t in enumerate(times, start=1)\<close> with its running
  \<open>t_prev\<close>; the principal test compares with the bond's maturity \<open>T\<close>.\<close>

fun build_rows :: "real \<Rightarrow> real \<Rightarrow> real \<Rightarrow> int \<Rightarrow> real \<Rightarrow> real list \<Rightarrow> error + CashflowRow list" where
  "build_rows fv0 c T i t_prev [] = Inr []"
| "build_rows fv0 c T i t_prev (t # ts) =
     (let dt = t - t_prev in
      if dt \<le> 0 then Inl (ValueError NonIncreasingGrid)
      else
        (let cpn = fv0 * c * dt;
             cf = (if \<bar>t - T\<bar> < 1 / 10 ^ 10 then cpn + fv0 else cpn)
         in (case build_rows fv0 c T (i + 1) t ts of
               Inl e \<Rightarrow> Inl e
             | Inr rows \<Rightarrow>
                 Inr (\<lparr>row_k = i, row_t = t, accrual = dt, cashflow = cf, coupon = cpn\<rparr> # rows))))"

definition cashflows :: "BondSpec \<Rightarrow> bool \<Rightarrow> error + CashflowRow list" where
  "cashflows bond stub =
     (let fv0 = fv bond; c = coupon_rate bond; T = maturity bond; p = coupon_freq bond in
      if fv0 \<le> 0 \<or> T \<le> 0 then Inl (ValueError FvMaturityNotPositive)
      else if p \<le> 0 then Inl (ValueError FreqNotPositive)
      else if c < 0 then Inl (ValueError CouponNegative)
      else (case schedule_times T p stub of
              Inl e \<Rightarrow> Inl e
            | Inr tms \<Rightarrow> build_rows fv0 c T 1 0 tms))"

text \<open>The bonds that pass the four input checks of \<open>cashflows\<close>.\<close>

definition valid_bond :: "BondSpec \<Rightarrow> bool" where
  "valid_bond bond \<longleftrightarrow>
     0 < fv bond \<and> 0 < maturity bond \<and> 0 < coupon_freq bond \<and> 0 \<le> coupon_rate bond"

subsection \<open>Pricing\<close>

record PricedRow = CashflowRow +
  row_df :: real
  row_pv :: real


definition price :: "PricedRow list \<Rightarrow> real" where
  "price cf_pv = sum_list (map row_pv cf_pv)"

subsection \<open>Flat-yield metrics\<close>

text \<open>A returned float: finite, or one of the IEEE values the source can produce
  (\<open>float("nan")\<close>, and the quotient of a NumPy scalar by a zero float, which does not
  raise).\<close>

datatype fval = Fin real | NaN | PosInf | NegInf

definition np_div :: "real \<Rightarrow> real \<Rightarrow> fval" where
  "np_div a b =
     (if b \<noteq> 0 then Fin (a / b)
      else if a = 0 then NaN else if 0 < a then PosInf else NegInf)"

definition macaulay_duration :: "PricedRow list \<Rightarrow> fval" where
  "macaulay_duration cf_pv =
     (let P = price cf_pv in
      if P = 0 then NaN
      else np_div (sum_list (map (\<lambda>r. row_t r * row_pv r) cf_pv)) P)"

definition convexity_flat :: "PricedRow list \<Rightarrow> FlatYield \<Rightarrow> error + fval" where
  "convexity_flat cf_pv y =
     (let P = price cf_pv in
      if P = 0 then Inr NaN
      else (case py_div (fy_j y) (of_int (fy_m y)) of Inl e \<Rightarrow> Inl e | Inr q \<Rightarrow>
        (let a = 1 + q in
         (case py_div 1 (of_int (fy_m y)) of Inl e \<Rightarrow> Inl e | Inr im \<Rightarrow>
           (case np_div (sum_list (map (\<lambda>r. row_pv r * row_t r * (row_t r + im)) cf_pv)) P of
              Fin s \<Rightarrow> Inr (np_div s (a * a))
            | x \<Rightarrow> Inr x)))))"

subsection \<open>Curve-shift analytics\<close>






subsection \<open>Concrete inputs\<close>



definition rows_zero :: "PricedRow list" where
  "rows_zero =
     [\<lparr>row_k = 1, row_t = 1, accrual = 1, cashflow = 5, coupon = 5, row_df = 1, row_pv = 5\<rparr>,
      \<lparr>row_k = 2, row_t = 2, accrual = 1, cashflow = - 5, coupon = - 5, row_df = 1, row_pv = - 5\<rparr>]"

definition rows_one :: "PricedRow list" where
  "rows_one =
     [\<lparr>row_k = 1, row_t = 1, accrual = 1, cashflow = 5, coupon = 5, row_df = 1, row_pv = 5\<rparr>,
      \<lparr>row_k = 2, row_t = 2, accrual = 1, cashflow = 105, coupon = 5, row_df = 1 / 2, row_pv = 105 / 2\<rparr>]"

definition yield_ex :: FlatYield where
  "yield_ex = \<lparr>fy_j = 4 / 100, fy_m = 2\<rparr>"

definition bond_2y :: BondSpec where
  "bond_2y = \<lparr>fv = 100, coupon_rate = 5 / 100, maturity = 2, coupon_freq = 2\<rparr>"

definition bond_23 :: BondSpec where
  "bond_23 = \<lparr>fv = 100, coupon_rate = 5 / 100, maturity = 23 / 10, coupon_freq = 2\<rparr>"


definition bond_sliver :: BondSpec where
  "bond_sliver = \<lparr>fv = 100, coupon_rate = 5 / 100, maturity = 1 - 5 / 10 ^ 13, coupon_freq = 1\<rparr>"

definition bond_short :: BondSpec where
  "bond_short = \<lparr>fv = 100, coupon_rate = 5 / 100, maturity = 3 / 10, coupon_freq = 2\<rparr>"



section \<open>Properties\<close>

subsection \<open>Interpolation on a valid curve\<close>



















subsection \<open>Parallel bumps\<close>





subsection \<open>Discount factors\<close>



subsection \<open>Flat-yield metrics\<close>

text \<open>
  C5. When the price (the sum of the \<open>pv\<close> column) is exactly 0, \<open>macaulay_duration\<close>
  and \<open>convexity_flat\<close> return the not-a-number value and raise nothing. When the price
  is not 0, \<open>macaulay_duration\<close> returns the sum of \<open>t * pv\<close> over the price, and
  \<open>convexity_flat\<close>, for a yield with \<open>m \<noteq> 0\<close> and \<open>1 + j / m \<noteq> 0\<close> (where the
  formula has a value), returns
  \<open>(1 / price) * (\<Sum> pv * t * (t + 1 / m)) / (1 + j / m)\<^sup>2\<close>.
\<close>

theorem flat_metrics_spec:
  "(price cf_pv = 0 \<longrightarrow>
      macaulay_duration cf_pv = NaN \<and> convexity_flat cf_pv y = Inr NaN)
   \<and> (price cf_pv \<noteq> 0 \<longrightarrow>
      macaulay_duration cf_pv
        = Fin (sum_list (map (\<lambda>r. row_t r * row_pv r) cf_pv) / price cf_pv)
      \<and> (fy_m y \<noteq> 0 \<and> 1 + fy_j y / of_int (fy_m y) \<noteq> 0 \<longrightarrow>
           convexity_flat cf_pv y
             = Inr (Fin ((1 / price cf_pv)
                      * sum_list (map (\<lambda>r. row_pv r * row_t r * (row_t r + 1 / of_int (fy_m y))) cf_pv)
                      / (1 + fy_j y / of_int (fy_m y)) ^ 2))))"
  by (simp add: macaulay_duration_def convexity_flat_def np_div_def py_div_def Let_def
      power2_eq_square)

theorem flat_metrics_spec_witness:
  "price rows_zero = 0 \<and> macaulay_duration rows_zero = NaN
   \<and> convexity_flat rows_zero yield_ex = Inr NaN
   \<and> price rows_one \<noteq> 0
   \<and> macaulay_duration rows_one = Fin (110 / (115 / 2))
   \<and> convexity_flat rows_one yield_ex
       = Inr (Fin ((1 / (115 / 2)) * (5 * 1 * (1 + 1 / 2) + 105 / 2 * 2 * (2 + 1 / 2))
                / (1 + (4 / 100) / 2) ^ 2))"
proof -
  have p0: "price rows_zero = 0" and p1: "price rows_one = 115 / 2"
    by (simp_all add: price_def rows_zero_def rows_one_def)
  have y: "fy_m yield_ex = 2" "fy_j yield_ex = 4 / 100" by (simp_all add: yield_ex_def)
  have "macaulay_duration rows_zero = NaN \<and> convexity_flat rows_zero yield_ex = Inr NaN"
    using flat_metrics_spec[of rows_zero yield_ex] p0 by simp
  moreover have "macaulay_duration rows_one = Fin (110 / (115 / 2))
    \<and> convexity_flat rows_one yield_ex
       = Inr (Fin ((1 / (115 / 2)) * (5 * 1 * (1 + 1 / 2) + 105 / 2 * 2 * (2 + 1 / 2))
                / (1 + (4 / 100) / 2) ^ 2))"
  proof -
    have s1: "sum_list (map (\<lambda>r. row_t r * row_pv r) rows_one) = 110"
      and s2: "sum_list (map (\<lambda>r. row_pv r * row_t r * (row_t r + 1 / 2)) rows_one)
                 = 5 * 1 * (1 + 1 / 2) + 105 / 2 * 2 * (2 + 1 / 2)"
      by (simp_all add: rows_one_def)
    show ?thesis
      using flat_metrics_spec[of rows_one yield_ex, unfolded p1 y]
      unfolding s1 by (simp add: s2)
  qed
  ultimately show ?thesis using p0 p1 by simp
qed


subsection \<open>The time grid and the row loop\<close>

lemma length_full_times: "length (full_times n p) = nat n"
  by (simp add: full_times_def)

lemma full_times_nth:
  assumes "j < nat n"
  shows "full_times n p ! j = (of_int (int j + 1)) / of_int p"
  using assms by (simp add: full_times_def add.commute)

lemma full_times_empty: "full_times n p = [] \<longleftrightarrow> n \<le> 0"
  by (auto simp: full_times_def)

lemma last_full_times:
  assumes "1 \<le> n"
  shows "last (full_times n p) = of_int n / of_int p"
proof -
  have ne: "full_times n p \<noteq> []" using assms by (simp add: full_times_empty)
  have "last (full_times n p) = full_times n p ! (nat n - 1)"
    using ne by (simp add: last_conv_nth length_full_times)
  also have "\<dots> = of_int (int (nat n - 1) + 1) / of_int p"
    using assms by (intro full_times_nth) simp
  also have "int (nat n - 1) + 1 = n" using assms by simp
  finally show ?thesis .
qed

lemma sorted_full_times:
  assumes "0 < p"
  shows "sorted_wrt (<) (0 # full_times n p)"
proof -
  have "sorted_wrt (<) (full_times n p)"
    unfolding full_times_def sorted_wrt_map
    using assms
    by (auto simp: sorted_wrt_iff_nth_less divide_strict_right_mono)
  moreover have "\<forall>t \<in> set (full_times n p). 0 < t"
    using assms by (auto simp: full_times_def)
  ultimately show ?thesis by simp
qed

lemma build_rows_sorted:
  assumes "sorted_wrt (<) (t_prev # ts)"
  shows "\<exists>rows. build_rows f c T i t_prev ts = Inr rows \<and> length rows = length ts \<and>
     (\<forall>j<length ts. rows ! j =
        \<lparr>row_k = i + int j, row_t = ts ! j, accrual = ts ! j - (t_prev # ts) ! j,
         cashflow = f * c * (ts ! j - (t_prev # ts) ! j)
                      + (if \<bar>ts ! j - T\<bar> < 1 / 10 ^ 10 then f else 0),
         coupon = f * c * (ts ! j - (t_prev # ts) ! j)\<rparr>)"
  using assms
proof (induction ts arbitrary: i t_prev)
  case Nil
  then show ?case by simp
next
  case (Cons t ts)
  have lt: "t_prev < t" and s: "sorted_wrt (<) (t # ts)"
    using Cons.prems by auto
  from Cons.IH[OF s, of "i + 1"] obtain rows where
    r: "build_rows f c T (i + 1) t ts = Inr rows" "length rows = length ts"
    and n: "\<And>j. j < length ts \<Longrightarrow> rows ! j =
        \<lparr>row_k = i + 1 + int j, row_t = ts ! j, accrual = ts ! j - (t # ts) ! j,
         cashflow = f * c * (ts ! j - (t # ts) ! j)
                      + (if \<bar>ts ! j - T\<bar> < 1 / 10 ^ 10 then f else 0),
         coupon = f * c * (ts ! j - (t # ts) ! j)\<rparr>"
    by blast
  let ?row = "\<lparr>row_k = i, row_t = t, accrual = t - t_prev,
               cashflow = f * c * (t - t_prev) + (if \<bar>t - T\<bar> < 1 / 10 ^ 10 then f else 0),
               coupon = f * c * (t - t_prev)\<rparr>"
  have b: "build_rows f c T i t_prev (t # ts) = Inr (?row # rows)"
    using lt r(1) by (simp add: Let_def)
  have "(?row # rows) ! j =
        \<lparr>row_k = i + int j, row_t = (t # ts) ! j, accrual = (t # ts) ! j - (t_prev # t # ts) ! j,
         cashflow = f * c * ((t # ts) ! j - (t_prev # t # ts) ! j)
                      + (if \<bar>(t # ts) ! j - T\<bar> < 1 / 10 ^ 10 then f else 0),
         coupon = f * c * ((t # ts) ! j - (t_prev # t # ts) ! j)\<rparr>"
    if "j < length (t # ts)" for j
  proof (cases j)
    case 0
    then show ?thesis by simp
  next
    case (Suc j')
    then have "j' < length ts" using that by simp
    from n[OF this] show ?thesis using Suc by simp
  qed
  then show ?case using b r(2) by auto
qed

lemma build_rows_times:
  assumes "sorted_wrt (<) (t_prev # ts)" "build_rows f c T i t_prev ts = Inr rows"
  shows "map row_t rows = ts"
proof -
  from build_rows_sorted[OF assms(1), of f c T i] assms(2)
  have "length rows = length ts" and "\<forall>j<length ts. row_t (rows ! j) = ts ! j"
    by auto
  then show ?thesis by (intro nth_equalityI) simp_all
qed

lemma schedule_times_integer:
  assumes T: "0 < T" and p: "0 < p" and n: "T * of_int p = of_int n"
  shows "schedule_times T p stub = Inr (full_times n p)"
proof -
  have "(0::real) < of_int n" using T p n[symmetric] by simp
  then have n1: "1 \<le> n" by simp
  have fl: "\<lfloor>real_of_int n + 1 / 10 ^ 12\<rfloor> = n"
    by (rule floor_unique) simp_all
  have ne: "full_times n p \<noteq> []" using n1 by (simp add: full_times_empty)
  have d: "real_of_int n / of_int p = T" using n[symmetric] p by simp
  then have l: "last (full_times n p) = T" using last_full_times[OF n1, of p] by simp
  show ?thesis
    using fl ne l by (simp add: schedule_times_def Let_def py_last_def n d)
qed

subsection \<open>Integer period counts\<close>

text \<open>
  C8. For a bond that passes the input checks and whose \<open>maturity * coupon_freq\<close> is an
  integer \<open>n\<close>, \<open>cashflows\<close> returns, with or without stub support, exactly \<open>n\<close>
  rows whose times are \<open>1 / p, 2 / p, \<dots>, n / p\<close>, the last one being the maturity.
\<close>

theorem cashflows_integer_periods:
  assumes "valid_bond bond"
    and "maturity bond * of_int (coupon_freq bond) = of_int n"
  shows "\<exists>rows. cashflows bond stub = Inr rows \<and> int (length rows) = n
           \<and> map row_t rows = map (\<lambda>k. of_int k / of_int (coupon_freq bond)) [1 .. n]
           \<and> row_t (last rows) = maturity bond"
proof -
  let ?T = "maturity bond" and ?p = "coupon_freq bond"
  have T: "0 < ?T" and p: "0 < ?p" and f: "0 < fv bond" and c: "0 \<le> coupon_rate bond"
    using assms(1) by (simp_all add: valid_bond_def)
  have "(0::real) < of_int n" using T p assms(2)[symmetric] by simp
  then have n1: "1 \<le> n" by simp
  have st: "schedule_times ?T ?p stub = Inr (full_times n ?p)"
    by (rule schedule_times_integer[OF T p assms(2)])
  have so: "sorted_wrt (<) (0 # full_times n ?p)" by (rule sorted_full_times[OF p])
  from build_rows_sorted[OF so, of "fv bond" "coupon_rate bond" ?T 1]
  obtain rows where r: "build_rows (fv bond) (coupon_rate bond) ?T 1 0 (full_times n ?p) = Inr rows"
    and len: "length rows = length (full_times n ?p)" by blast
  have cf: "cashflows bond stub = Inr rows"
    using T p f c st r by (simp add: cashflows_def Let_def)
  have tm: "map row_t rows = full_times n ?p" by (rule build_rows_times[OF so r])
  have ne: "rows \<noteq> []" using len n1 by (auto simp: length_full_times)
  have "row_t (last rows) = last (map row_t rows)" using ne by (simp add: last_map)
  also have "\<dots> = of_int n / of_int ?p" using tm last_full_times[OF n1] by simp
  also have "\<dots> = ?T" using assms(2)[symmetric] p by simp
  finally have la: "row_t (last rows) = ?T" .
  have "int (length rows) = n" using len n1 by (simp add: length_full_times)
  then show ?thesis using cf tm la by (auto simp: full_times_def)
qed

theorem cashflows_integer_periods_witness:
  "valid_bond bond_2y \<and> maturity bond_2y * of_int (coupon_freq bond_2y) = of_int 4
   \<and> (\<exists>rows. cashflows bond_2y False = Inr rows \<and> int (length rows) = 4
          \<and> map row_t rows = [1 / 2, 2 / 2, 3 / 2, 4 / 2] \<and> row_t (last rows) = 2)"
proof -
  have v: "valid_bond bond_2y" by (simp add: valid_bond_def bond_2y_def)
  have e: "maturity bond_2y * of_int (coupon_freq bond_2y) = of_int 4"
    by (simp add: bond_2y_def)
  have u: "[1 .. 4::int] = [1, 2, 3, 4]" by (simp add: upto_rec1)
  show ?thesis
    using cashflows_integer_periods[OF v e, of False] v e
    by (simp add: bond_2y_def u)
qed

subsection \<open>Stub periods\<close>







lemma floor_bond_23: "\<lfloor>(23 / 10 :: real) * 2 + 1 / 10 ^ 12\<rfloor> = 4"
  by (rule floor_unique) simp_all


lemma upto_1_4: "[1 .. 4::int] = [1, 2, 3, 4]"
  by (simp add: upto_rec1)


lemma schedule_times_no_stub_23: "schedule_times (23 / 10) 2 False = Inr [1 / 2, 1, 3 / 2, 2]"
proof -
  have "full_times 4 2 = [1 / 2, 1, 3 / 2, 2]"
    by (simp add: full_times_def upto_1_4)
  then show ?thesis
    using floor_bond_23 by (simp add: schedule_times_def Let_def py_last_def)
qed

text \<open>
  C1 (the code at the failing input). Without stub support the bond with maturity 2.3
  and two coupons a year gets the rows at 0.5, 1.0, 1.5 and 2.0, and the cash flow of
  every row, the last included, is the coupon 2.5 alone: the face value is paid nowhere.
\<close>

theorem cashflows_no_stub_23:
  "cashflows bond_23 False =
     Inr [\<lparr>row_k = 1, row_t = 1 / 2, accrual = 1 / 2, cashflow = 5 / 2, coupon = 5 / 2\<rparr>,
          \<lparr>row_k = 2, row_t = 1, accrual = 1 / 2, cashflow = 5 / 2, coupon = 5 / 2\<rparr>,
          \<lparr>row_k = 3, row_t = 3 / 2, accrual = 1 / 2, cashflow = 5 / 2, coupon = 5 / 2\<rparr>,
          \<lparr>row_k = 4, row_t = 2, accrual = 1 / 2, cashflow = 5 / 2, coupon = 5 / 2\<rparr>]"
  using schedule_times_no_stub_23
  by (simp add: cashflows_def bond_23_def Let_def)




subsection \<open>No full period\<close>

text \<open>
  C10 (as amended). For a bond that passes the input checks with
  \<open>maturity * coupon_freq + 1e-12 < 1\<close> (so that the source's tolerant floor \<open>n_full\<close> is
  0), \<open>cashflows\<close> without stub support fails with the index error of reading the last
  element of the empty time list, and with stub support returns the single row at the
  maturity, which carries the coupon and the face value.
\<close>

theorem cashflows_no_full_period:
  assumes v: "valid_bond bond"
    and s: "maturity bond * of_int (coupon_freq bond) + 1 / 10 ^ 12 < 1"
  shows "cashflows bond False = Inl IndexError
       \<and> cashflows bond True =
           Inr [\<lparr>row_k = 1, row_t = maturity bond, accrual = maturity bond,
                 cashflow = fv bond * coupon_rate bond * maturity bond + fv bond,
                 coupon = fv bond * coupon_rate bond * maturity bond\<rparr>]"
proof -
  let ?T = "maturity bond" and ?p = "coupon_freq bond"
  have T: "0 < ?T" and p: "0 < ?p" and f: "0 < fv bond" and c: "0 \<le> coupon_rate bond"
    using v by (simp_all add: valid_bond_def)
  have "0 \<le> ?T * real_of_int ?p" using T p by simp
  then have fl: "\<lfloor>?T * of_int ?p + 1 / 10 ^ 12\<rfloor> = 0"
    using s by (intro floor_unique) simp_all
  have e: "full_times 0 ?p = []" by (simp add: full_times_empty)
  have 1: "schedule_times ?T ?p False = Inl IndexError"
    using fl e by (simp add: schedule_times_def Let_def py_last_def)
  have 2: "schedule_times ?T ?p True = Inr [?T]"
    using fl e by (simp add: schedule_times_def Let_def)
  show ?thesis
    using T p f c 1 2 by (simp add: cashflows_def Let_def)
qed

theorem cashflows_no_full_period_witness:
  "valid_bond bond_short
   \<and> maturity bond_short * of_int (coupon_freq bond_short) + 1 / 10 ^ 12 < 1
   \<and> cashflows bond_short False = Inl IndexError
   \<and> cashflows bond_short True =
       Inr [\<lparr>row_k = 1, row_t = 3 / 10, accrual = 3 / 10,
             cashflow = 100 * (5 / 100) * (3 / 10) + 100,
             coupon = 100 * (5 / 100) * (3 / 10)\<rparr>]"
proof -
  have v: "valid_bond bond_short" by (simp add: valid_bond_def bond_short_def)
  have s: "maturity bond_short * of_int (coupon_freq bond_short) + 1 / 10 ^ 12 < 1"
    by (simp add: bond_short_def)
  show ?thesis
    using cashflows_no_full_period[OF v s] v s by (simp add: bond_short_def)
qed

lemma floor_sliver: "\<lfloor>(1 - 5 / 10 ^ 13 :: real) * 1 + 1 / 10 ^ 12\<rfloor> = 1"
  by (rule floor_unique) simp_all

lemma schedule_times_sliver:
  "schedule_times (1 - 5 / 10 ^ 13) 1 stub = Inr [1]"
proof -
  have "full_times 1 1 = [1]"
    by (simp add: full_times_def upto_rec1)
  then show ?thesis
    using floor_sliver by (simp add: schedule_times_def Let_def py_last_def)
qed

text \<open>
  C10 fails as stated just below one period: with \<open>maturity * coupon_freq = 1 - 5e-13\<close>
  the tolerant floor is 1, no index error is raised, and both stub settings return one
  row at \<open>t = 1\<close>.
\<close>

theorem cashflows_sliver_counterexample:
  "valid_bond bond_sliver
   \<and> 0 < maturity bond_sliver * of_int (coupon_freq bond_sliver)
   \<and> maturity bond_sliver * of_int (coupon_freq bond_sliver) < 1
   \<and> \<lfloor>maturity bond_sliver * real_of_int (coupon_freq bond_sliver)\<rfloor> = 0
   \<and> cashflows bond_sliver False =
       Inr [\<lparr>row_k = 1, row_t = 1, accrual = 1, cashflow = 105, coupon = 5\<rparr>]
   \<and> cashflows bond_sliver True =
       Inr [\<lparr>row_k = 1, row_t = 1, accrual = 1, cashflow = 105, coupon = 5\<rparr>]"
proof -
  have "\<lfloor>(1 - 5 / 10 ^ 13 :: real) * 1\<rfloor> = 0" by (rule floor_unique) simp_all
  then have "\<lfloor>maturity bond_sliver * real_of_int (coupon_freq bond_sliver)\<rfloor> = 0"
    by (simp add: bond_sliver_def)
  moreover have "valid_bond bond_sliver
   \<and> 0 < maturity bond_sliver * of_int (coupon_freq bond_sliver)
   \<and> maturity bond_sliver * of_int (coupon_freq bond_sliver) < 1"
    by (simp add: valid_bond_def bond_sliver_def)
  moreover have "cashflows bond_sliver stub =
       Inr [\<lparr>row_k = 1, row_t = 1, accrual = 1, cashflow = 105, coupon = 5\<rparr>]" for stub
    using schedule_times_sliver[of stub] by (simp add: cashflows_def bond_sliver_def Let_def)
  ultimately show ?thesis by blast
qed


subsection \<open>Curve-shift analytics\<close>













end
